theory Spec2Isabelle
  imports Main "HOL-Library.Sublist"
begin

section \<open>NamAstra: wish-to-filter resolution and deterministic name search\<close>

text \<open>
  A shallow embedding of \<^verbatim>\<open>src/app/page.tsx\<close> (the types, the mock dataset, the mock
  tools \<^verbatim>\<open>parseWishesLLM\<close>, \<^verbatim>\<open>getNakshatra\<close>, \<^verbatim>\<open>searchNames\<close> and the two handlers
  \<^verbatim>\<open>runParseAndSearch\<close>, \<^verbatim>\<open>onSearch\<close>) and of the route handler
  \<^verbatim>\<open>src/app/api/parse-wishes/route.ts\<close>.

  Conventions of the embedding.
  \<^item> The string-literal union types are datatypes with one constructor per literal.
  \<^item> An optional property \<^verbatim>\<open>x?: T\<close> is a field of type \<open>T option\<close>; \<open>None\<close> is
    the absent key (\<^verbatim>\<open>undefined\<close>). A type \<^verbatim>\<open>T | null\<close> is \<open>T nullable\<close>.
  \<^item> \<^verbatim>\<open>number\<close> is \<open>int\<close>: the integer-valued numbers. The only numbers the search
    reads are syllable counts; \<^verbatim>\<open>NaN\<close> and fractions are not modelled.
  \<^item> \<^verbatim>\<open>string\<close> is \<open>string\<close>, with ASCII case mapping for \<^verbatim>\<open>toLowerCase\<close>.
  \<^item> The promises of the \<^verbatim>\<open>async\<close> functions are the values they resolve to; a
    rejection is an \<open>error\<close>.
\<close>

subsection \<open>Types\<close>

datatype Theme = Virtue | Nature | Royal | Modern | Traditional | Scholarly | Warrior | Music

datatype Deity =
  Deity_None | Vishnu | Shiva | Devi | Ganesha | Murugan | Rama | Krishna | Multiple

datatype Source =
  Vedas | Upanishads | Puranas | Epics | Sahasranama | Regional | Sanskrit | Source_None

datatype Script =
  Latin | Devanagari | Tamil | Telugu | Kannada | Malayalam | Gujarati | Gurmukhi
  | Bengali_Assamese

datatype Gender = boy | girl | unisex

datatype Vibe = soft | strong | any_vibe

datatype Popularity = rare | uncommon | common

datatype 'a nullable = Null | Value 'a

text \<open>A JSON value, for the properties an object carries beyond its declared type.\<close>

datatype json =
  JNull | JBool bool | JNum int | JStr string | JArr "json list" | JObj "(string \<times> json) list"

text \<open>\<^verbatim>\<open>birth?: { date?: string; time?: string; place?: string } | null\<close>\<close>

record Birth =
  date :: "string option"
  time :: "string option"
  place :: "string option"

text \<open>
  \<^verbatim>\<open>type WishFilters\<close>. The type declares \<^verbatim>\<open>gender\<close> as required, but
  \<^verbatim>\<open>searchNames\<close> guards against a missing one (\<^verbatim>\<open>filters.gender || n.gender\<close>) and a
  parse fragment is a partial object of this shape, so \<open>gender\<close> is optional here too.
  \<open>extra\<close> holds the properties outside the declared type (the route's
  \<^verbatim>\<open>rawText\<close>, for one), which the spread copies like any other.
\<close>

record WishFilters =
  gender :: "Gender option"
  syllables :: "int option"
  script :: "Script option"
  deity :: "Deity option"
  sources :: "Source list option"
  themes :: "Theme list option"
  startLetters :: "string list option"
  vibe :: "Vibe option"
  lengthMax :: "int nullable option"
  globalPronounce :: "bool option"
  birth :: "Birth nullable option"
  vedicMode :: "bool option"
  startSounds :: "string list option"
  extra :: "string \<rightharpoonup> json"

text \<open>
  \<^verbatim>\<open>type NameRecord\<close>. Its fields carry the prefix \<open>n_\<close> (the source's \<^verbatim>\<open>n.gender\<close>,
  \<^verbatim>\<open>n.name\<close>, ...), which keeps them apart from the filter's fields of the same name.
  The spellings in \<open>n_scripts\<close> are lists of UTF-16 code units, as Devanagari lies
  outside \<open>char\<close>.
\<close>

record NameRecord =
  n_id :: string
  n_name :: string
  n_gender :: Gender
  n_scripts :: "(Script \<times> nat list) list"
  n_syllables :: int
  n_phoneticStart :: string
  n_deityAffinity :: Deity
  n_sources :: "Source list"
  n_meaning :: string
  n_language :: string
  n_regionTags :: "string list"
  n_modernity :: nat
  n_globalPronounce :: nat
  n_nicknames :: "string list"
  n_related :: "string list"
  n_popularity :: "Popularity option"

subsection \<open>Mock dataset\<close>

definition Vihaan :: NameRecord where
  "Vihaan = \<lparr> n_id = ''1'', n_name = ''Vihaan'', n_gender = boy,
     n_scripts = [(Latin, [86, 105, 104, 97, 97, 110]),
                  (Devanagari, [0x935, 0x93F, 0x939, 0x93E, 0x928])],
     n_syllables = 2, n_phoneticStart = ''Vi'', n_deityAffinity = Vishnu,
     n_sources = [Sahasranama, Puranas],
     n_meaning = ''Dawn; the first ray of sun'', n_language = ''Sanskrit'',
     n_regionTags = [''Pan-India''], n_modernity = 4, n_globalPronounce = 4,
     n_nicknames = [''Vii'', ''Han''], n_related = [''Vivaan'', ''Vihan''],
     n_popularity = Some common \<rparr>"

definition Vedant :: NameRecord where
  "Vedant = \<lparr> n_id = ''2'', n_name = ''Vedant'', n_gender = boy,
     n_scripts = [(Latin, [86, 101, 100, 97, 110, 116]),
                  (Devanagari, [0x935, 0x947, 0x926, 0x93E, 0x928, 0x94D, 0x924])],
     n_syllables = 2, n_phoneticStart = ''Ve'', n_deityAffinity = Deity_None,
     n_sources = [Upanishads],
     n_meaning = ''The end/culmination of the Veda; knowledge of the Self'',
     n_language = ''Sanskrit'',
     n_regionTags = [''Pan-India''], n_modernity = 3, n_globalPronounce = 3,
     n_nicknames = [''Ved''], n_related = [''Vedanta'', ''Vedan''],
     n_popularity = Some common \<rparr>"

definition Vasu :: NameRecord where
  "Vasu = \<lparr> n_id = ''3'', n_name = ''Vasu'', n_gender = boy,
     n_scripts = [(Latin, [86, 97, 115, 117]), (Devanagari, [0x935, 0x938, 0x941])],
     n_syllables = 2, n_phoneticStart = ''Va'', n_deityAffinity = Vishnu,
     n_sources = [Sahasranama, Puranas],
     n_meaning = ''Wealthy; one of the eight Vasus; an epithet of Vishnu'',
     n_language = ''Sanskrit'',
     n_regionTags = [''North'', ''South''], n_modernity = 3, n_globalPronounce = 4,
     n_nicknames = [''Vas''], n_related = [''Vasudev'', ''Vasuman''],
     n_popularity = Some uncommon \<rparr>"

definition Hriday :: NameRecord where
  "Hriday = \<lparr> n_id = ''4'', n_name = ''Hriday'', n_gender = boy,
     n_scripts = [(Latin, [72, 114, 105, 100, 97, 121]),
                  (Devanagari, [0x939, 0x943, 0x926, 0x92F])],
     n_syllables = 2, n_phoneticStart = ''Hri/Hr'', n_deityAffinity = Deity_None,
     n_sources = [Sanskrit],
     n_meaning = ''Heart; core'', n_language = ''Sanskrit'',
     n_regionTags = [''Pan-India''], n_modernity = 3, n_globalPronounce = 2,
     n_nicknames = [''Hri''], n_related = [''Hridaya''],
     n_popularity = Some uncommon \<rparr>"

definition Harish :: NameRecord where
  "Harish = \<lparr> n_id = ''5'', n_name = ''Harish'', n_gender = boy,
     n_scripts = [(Latin, [72, 97, 114, 105, 115, 104]),
                  (Devanagari, [0x939, 0x930, 0x940, 0x936])],
     n_syllables = 2, n_phoneticStart = ''Ha'', n_deityAffinity = Vishnu,
     n_sources = [Puranas],
     n_meaning = ''Lord Vishnu; lord of Hari'', n_language = ''Sanskrit'',
     n_regionTags = [''Pan-India''], n_modernity = 2, n_globalPronounce = 4,
     n_nicknames = [''Hari''], n_related = [''Harishchandra'', ''Haridas''],
     n_popularity = Some common \<rparr>"

definition MOCK_NAMES :: "NameRecord list" where
  "MOCK_NAMES = [Vihaan, Vedant, Vasu, Hriday, Harish]"

subsection \<open>String helpers\<close>

text \<open>\<^verbatim>\<open>String.prototype.toLowerCase\<close>, on ASCII: the letters A to Z map to a to z.\<close>

definition lowerChar :: "char \<Rightarrow> char" where
  "lowerChar c =
     (case map_of (zip ''ABCDEFGHIJKLMNOPQRSTUVWXYZ'' ''abcdefghijklmnopqrstuvwxyz'') c of
        Some l \<Rightarrow> l
      | None \<Rightarrow> c)"

definition toLowerCase :: "string \<Rightarrow> string" where
  "toLowerCase s = map lowerChar s"

text \<open>\<^verbatim>\<open>s.startsWith(p)\<close>\<close>

definition startsWith :: "string \<Rightarrow> string \<Rightarrow> bool" where
  "startsWith s p = (take (length p) s = p)"

subsection \<open>Mock tools\<close>

text \<open>
  \<^verbatim>\<open>searchNames\<close>, with the dataset it reads as a parameter. Each \<^verbatim>\<open>if\<close> of the
  source tests JavaScript truthiness: a number is truthy unless it is 0, a string
  unless it is empty, an array always (hence the tests of \<^verbatim>\<open>.length\<close>), and
  \<^verbatim>\<open>undefined\<close> never.
\<close>

definition searchNamesIn :: "NameRecord list \<Rightarrow> WishFilters \<Rightarrow> NameRecord list" where
  "searchNamesIn corpus filters =
     (let out = filter (\<lambda>n. n_gender n =
                  (case gender filters of Some g \<Rightarrow> g | None \<Rightarrow> n_gender n)) corpus;
          out = (case syllables filters of
                   Some k \<Rightarrow> if k \<noteq> 0 then filter (\<lambda>n. n_syllables n = k) out else out
                 | None \<Rightarrow> out);
          out = (case deity filters of
                   Some d \<Rightarrow>
                     if d \<noteq> Deity_None
                     then filter (\<lambda>n. n_deityAffinity n = d \<or> n_deityAffinity n = Multiple) out
                     else out
                 | None \<Rightarrow> out);
          out = (case sources filters of
                   Some ss \<Rightarrow>
                     if length ss \<noteq> 0
                     then filter (\<lambda>n. list_ex (\<lambda>s. List.member ss s) (n_sources n)) out
                     else out
                 | None \<Rightarrow> out);
          out = (case startLetters filters of
                   Some ls \<Rightarrow>
                     if length ls \<noteq> 0
                     then filter (\<lambda>n. list_ex (\<lambda>s.
                            startsWith (toLowerCase (n_name n)) (toLowerCase s)) ls) out
                     else out
                 | None \<Rightarrow> out);
          out = (case startSounds filters of
                   Some ls \<Rightarrow>
                     if length ls \<noteq> 0
                     then filter (\<lambda>n. list_ex (\<lambda>s.
                            startsWith (toLowerCase (n_phoneticStart n)) (toLowerCase s)) ls) out
                     else out
                 | None \<Rightarrow> out)
      in take 40 out)"

definition searchNames :: "WishFilters \<Rightarrow> NameRecord list" where
  "searchNames filters = searchNamesIn MOCK_NAMES filters"

text \<open>
  \<^verbatim>\<open>getNakshatra\<close>: the placeholder of the source, which answers every birth
  descriptor with Pushya, pada 3.
\<close>

record Astro =
  nakshatra :: string
  pada :: int
  astro_startSounds :: "string list"

definition getNakshatra :: "Birth \<Rightarrow> Astro" where
  "getNakshatra b =
     (let sounds = [''Hu'', ''He'', ''Ho'', ''Da'']
      in \<lparr> nakshatra = ''Pushya'', pada = 3, astro_startSounds = sounds \<rparr>)"

text \<open>
  What can go wrong in \<^verbatim>\<open>parseWishesLLM\<close>: \<^verbatim>\<open>fetch\<close> rejects when the endpoint
  cannot be reached, and \<^verbatim>\<open>r.json()\<close> rejects when the body of the response is not
  JSON. \<open>UpstreamFailed\<close> is the route's own failure, when
  \<^verbatim>\<open>client.responses.create\<close> throws.
\<close>

datatype error = FetchRejected | BodyNotJson | UpstreamFailed

text \<open>
  What the endpoint does with a request, seen from the browser: no response at all, a
  response whose body is not JSON, or a response whose body is the JSON of an object,
  read (unchecked, as the source's cast does) as a partial \<^verbatim>\<open>WishFilters\<close>.
\<close>

datatype fetched = NoResponse | NotJsonBody | JsonBody WishFilters

definition parseWishesLLM :: "(string \<Rightarrow> fetched) \<Rightarrow> string \<Rightarrow> error + WishFilters" where
  "parseWishesLLM endpoint text =
     (case endpoint text of
        NoResponse \<Rightarrow> Inl FetchRejected
      | NotJsonBody \<Rightarrow> Inl BodyNotJson
      | JsonBody parsed \<Rightarrow> Inr parsed)"

subsection \<open>The route \<^verbatim>\<open>/api/parse-wishes\<close>\<close>

text \<open>The object \<^verbatim>\<open>{}\<close>, and the route's fallback \<^verbatim>\<open>{ rawText: content }\<close>.\<close>

definition emptyObject :: WishFilters where
  "emptyObject = \<lparr> gender = None, syllables = None, script = None, deity = None,
     sources = None, themes = None, startLetters = None, vibe = None, lengthMax = None,
     globalPronounce = None, birth = None, vedicMode = None, startSounds = None,
     extra = Map.empty \<rparr>"

definition rawTextObject :: "string \<Rightarrow> WishFilters" where
  "rawTextObject content = emptyObject\<lparr> extra := [''rawText'' \<mapsto> JStr content] \<rparr>"

text \<open>The model either fails or answers with an \<^verbatim>\<open>output_text\<close>, which may be missing.\<close>

datatype llm_result = LlmFailed | LlmResponse "string option"

definition prompt :: "string \<Rightarrow> string" where
  "prompt text =
     ''Parse this baby naming request into JSON with keys:'' @ [CHR 0x0A] @
     ''            gender, syllables, deity, sources[], startLetters[], vibe:'' @ [CHR 0x0A] @
     ''            '' @ text"

text \<open>
  \<^verbatim>\<open>POST\<close>. Its two collaborators are parameters: \<open>client\<close> is
  \<^verbatim>\<open>client.responses.create\<close> on the prompt, and \<open>JSON_parse\<close> is \<^verbatim>\<open>JSON.parse\<close>,
  \<open>None\<close> when it throws. \<open>Inl\<close> is an exception leaving the handler.
\<close>

definition POST ::
  "(string \<Rightarrow> llm_result) \<Rightarrow> (string \<Rightarrow> WishFilters option) \<Rightarrow> string \<Rightarrow> error + WishFilters"
where
  "POST client JSON_parse text =
     (case client (prompt text) of
        LlmFailed \<Rightarrow> Inl UpstreamFailed
      | LlmResponse output_text \<Rightarrow>
          (let content = (case output_text of Some t \<Rightarrow> t | None \<Rightarrow> []);
               parsed = (case JSON_parse content of
                           Some v \<Rightarrow> v
                         | None \<Rightarrow> rawTextObject content)
           in Inr parsed))"

subsection \<open>Main app: state and handlers\<close>

datatype Tab = quick | vedic

record AppState =
  tab :: Tab
  wishes :: string
  loading :: bool
  filters :: WishFilters
  results :: "NameRecord list"
  compareIds :: "string list"

text \<open>The initial value of \<^verbatim>\<open>filters\<close>, and of the whole state.\<close>

definition initialFilters :: WishFilters where
  "initialFilters = emptyObject\<lparr> gender := Some boy, script := Some Latin,
     vibe := Some any_vibe, vedicMode := Some False, lengthMax := Some Null,
     globalPronounce := Some True \<rparr>"

definition initialState :: AppState where
  "initialState = \<lparr> tab = quick, wishes = [], loading = False, filters = initialFilters,
     results = [], compareIds = [] \<rparr>"

text \<open>
  Object spread \<^verbatim>\<open>{ ...a, ...b }\<close>: a key of \<open>b\<close> wins, a key only \<open>a\<close> has is
  kept. \<open>spreadKey\<close> is the spread at one key.
\<close>

definition spreadKey :: "'a option \<Rightarrow> 'a option \<Rightarrow> 'a option" where
  "spreadKey a b = (case b of Some v \<Rightarrow> Some v | None \<Rightarrow> a)"

definition spread :: "WishFilters \<Rightarrow> WishFilters \<Rightarrow> WishFilters" where
  "spread a b =
     \<lparr> gender = spreadKey (gender a) (gender b),
       syllables = spreadKey (syllables a) (syllables b),
       script = spreadKey (script a) (script b),
       deity = spreadKey (deity a) (deity b),
       sources = spreadKey (sources a) (sources b),
       themes = spreadKey (themes a) (themes b),
       startLetters = spreadKey (startLetters a) (startLetters b),
       vibe = spreadKey (vibe a) (vibe b),
       lengthMax = spreadKey (lengthMax a) (lengthMax b),
       globalPronounce = spreadKey (globalPronounce a) (globalPronounce b),
       birth = spreadKey (birth a) (birth b),
       vedicMode = spreadKey (vedicMode a) (vedicMode b),
       startSounds = spreadKey (startSounds a) (startSounds b),
       extra = (\<lambda>k. spreadKey (extra a k) (extra b k)) \<rparr>"

text \<open>
  Truthiness of an optional boolean and of an optional string, and the optional chain
  \<^verbatim>\<open>merged.birth?.date\<close> (likewise for \<^verbatim>\<open>time\<close> and \<^verbatim>\<open>place\<close>).
\<close>

definition truthyBool :: "bool option \<Rightarrow> bool" where
  "truthyBool v = (case v of Some b \<Rightarrow> b | None \<Rightarrow> False)"

definition truthyString :: "string option \<Rightarrow> bool" where
  "truthyString v = (case v of Some s \<Rightarrow> s \<noteq> [] | None \<Rightarrow> False)"

definition optChain :: "Birth nullable option \<Rightarrow> (Birth \<Rightarrow> string option) \<Rightarrow> string option" where
  "optChain v field = (case v of Some (Value b) \<Rightarrow> field b | _ \<Rightarrow> None)"

text \<open>
  The filter \<^verbatim>\<open>runParseAndSearch\<close> resolves from the current filters and the parsed
  object: the local \<^verbatim>\<open>merged\<close> when \<^verbatim>\<open>searchNames\<close> is called.
\<close>

definition resolveParsed :: "WishFilters \<Rightarrow> WishFilters \<Rightarrow> WishFilters" where
  "resolveParsed current parsed =
     (let merged = spread current parsed
      in if truthyBool (vedicMode merged) \<and> truthyString (optChain (birth merged) date)
            \<and> truthyString (optChain (birth merged) time)
            \<and> truthyString (optChain (birth merged) place)
         then (case birth merged of
                 Some (Value b) \<Rightarrow>
                   merged\<lparr> startSounds := Some (astro_startSounds (getNakshatra b)) \<rparr>
               | _ \<Rightarrow> merged)
         else merged)"

text \<open>
  \<^verbatim>\<open>runParseAndSearch\<close>, from the state at the click to the state when the handler
  is done, with the exception that leaves it, if any. There is a \<^verbatim>\<open>finally\<close> and no
  \<^verbatim>\<open>catch\<close>: a rejection of \<^verbatim>\<open>parseWishesLLM\<close> resets \<^verbatim>\<open>loading\<close> and goes on
  to the caller.
\<close>

definition runParseAndSearch :: "(string \<Rightarrow> fetched) \<Rightarrow> AppState \<Rightarrow> error option \<times> AppState" where
  "runParseAndSearch endpoint st =
     (let st = st\<lparr> loading := True \<rparr>
      in case parseWishesLLM endpoint (wishes st) of
           Inl e \<Rightarrow> (Some e, st\<lparr> loading := False \<rparr>)
         | Inr parsed \<Rightarrow>
             (let merged = resolveParsed (filters st) parsed;
                  r = searchNames merged
              in (None, st\<lparr> filters := merged, results := r, loading := False \<rparr>)))"

text \<open>
  The filter \<^verbatim>\<open>onSearch\<close> resolves: a copy of the current filters, enriched when the
  Vedic tab is the selected one.
\<close>

definition resolveSearch :: "Tab \<Rightarrow> WishFilters \<Rightarrow> WishFilters" where
  "resolveSearch t current =
     (let merged = spread emptyObject current
      in if t = vedic \<and> truthyString (optChain (birth merged) date)
            \<and> truthyString (optChain (birth merged) time)
            \<and> truthyString (optChain (birth merged) place)
         then (case birth merged of
                 Some (Value b) \<Rightarrow>
                   merged\<lparr> startSounds := Some (astro_startSounds (getNakshatra b)) \<rparr>
               | _ \<Rightarrow> merged)
         else merged)"

text \<open>\<^verbatim>\<open>onSearch\<close> stores the results only; nothing in it can throw.\<close>

definition onSearch :: "AppState \<Rightarrow> AppState" where
  "onSearch st =
     (let st = st\<lparr> loading := True \<rparr>;
          merged = resolveSearch (tab st) (filters st);
          r = searchNames merged
      in st\<lparr> results := r, loading := False \<rparr>)"

subsection \<open>The match rules of the specification\<close>

text \<open>
  The rules of the Name Matcher's contract, one predicate per field. A rule binds only
  when its constraint is active: gender when a gender is given, deity when a deity
  other than \<^verbatim>\<open>"None"\<close> is given, each list-typed field when the list is non-empty.
\<close>

definition genderOk :: "WishFilters \<Rightarrow> NameRecord \<Rightarrow> bool" where
  "genderOk F r = (case gender F of Some g \<Rightarrow> n_gender r = g | None \<Rightarrow> True)"

definition deityOk :: "WishFilters \<Rightarrow> NameRecord \<Rightarrow> bool" where
  "deityOk F r =
     (case deity F of
        Some d \<Rightarrow> d = Deity_None \<or> n_deityAffinity r = d \<or> n_deityAffinity r = Multiple
      | None \<Rightarrow> True)"

definition sourcesOk :: "WishFilters \<Rightarrow> NameRecord \<Rightarrow> bool" where
  "sourcesOk F r =
     (case sources F of
        Some ss \<Rightarrow> ss = [] \<or> set (n_sources r) \<inter> set ss \<noteq> {}
      | None \<Rightarrow> True)"

definition startLettersOk :: "WishFilters \<Rightarrow> NameRecord \<Rightarrow> bool" where
  "startLettersOk F r =
     (case startLetters F of
        Some ls \<Rightarrow>
          ls = [] \<or> (\<exists>s \<in> set ls. startsWith (toLowerCase (n_name r)) (toLowerCase s))
      | None \<Rightarrow> True)"

definition startSoundsOk :: "WishFilters \<Rightarrow> NameRecord \<Rightarrow> bool" where
  "startSoundsOk F r =
     (case startSounds F of
        Some ls \<Rightarrow>
          ls = []
          \<or> (\<exists>s \<in> set ls. startsWith (toLowerCase (n_phoneticStart r)) (toLowerCase s))
      | None \<Rightarrow> True)"

text \<open>
  The syllable rule in two readings. \<open>syllablesOkWhenSet\<close> binds whenever a count is
  given; \<open>syllablesOk\<close> binds when the count given is not 0.
\<close>

definition syllablesOkWhenSet :: "WishFilters \<Rightarrow> NameRecord \<Rightarrow> bool" where
  "syllablesOkWhenSet F r =
     (case syllables F of Some k \<Rightarrow> n_syllables r = k | None \<Rightarrow> True)"

definition syllablesOk :: "WishFilters \<Rightarrow> NameRecord \<Rightarrow> bool" where
  "syllablesOk F r =
     (case syllables F of Some k \<Rightarrow> k = 0 \<or> n_syllables r = k | None \<Rightarrow> True)"

definition satisfiesAsStated :: "WishFilters \<Rightarrow> NameRecord \<Rightarrow> bool" where
  "satisfiesAsStated F r \<longleftrightarrow>
     genderOk F r \<and> syllablesOkWhenSet F r \<and> deityOk F r \<and> sourcesOk F r
     \<and> startLettersOk F r \<and> startSoundsOk F r"

definition satisfies :: "WishFilters \<Rightarrow> NameRecord \<Rightarrow> bool" where
  "satisfies F r \<longleftrightarrow>
     genderOk F r \<and> syllablesOk F r \<and> deityOk F r \<and> sourcesOk F r
     \<and> startLettersOk F r \<and> startSoundsOk F r"

text \<open>The five rules other than gender.\<close>

definition satisfiesBesidesGender :: "WishFilters \<Rightarrow> NameRecord \<Rightarrow> bool" where
  "satisfiesBesidesGender F r \<longleftrightarrow>
     syllablesOk F r \<and> deityOk F r \<and> sourcesOk F r \<and> startLettersOk F r
     \<and> startSoundsOk F r"

text \<open>Merge precedence at one key: the fragment's value when it has one, else the baseline's.\<close>

definition precedence :: "'a option \<Rightarrow> 'a option \<Rightarrow> 'a option \<Rightarrow> bool" where
  "precedence a b m = (if b = None then m = a else m = b)"

text \<open>All three of birth date, birth time and birth place present and non-empty.\<close>

definition birthComplete :: "WishFilters \<Rightarrow> bool" where
  "birthComplete F =
     (case birth F of
        Some (Value b) \<Rightarrow> truthyString (date b) \<and> truthyString (time b) \<and> truthyString (place b)
      | _ \<Rightarrow> False)"

subsection \<open>Sample inputs\<close>

text \<open>A filter with all six constraints active.\<close>

definition sixConstraints :: WishFilters where
  "sixConstraints = emptyObject\<lparr> gender := Some boy, syllables := Some 2,
     deity := Some Vishnu, sources := Some [Epics, Puranas], startLetters := Some [''ha'', ''VI''],
     startSounds := Some [''V''] \<rparr>"

text \<open>\<^verbatim>\<open>{ gender: "boy", syllables: 0 }\<close>\<close>

definition zeroSyllables :: WishFilters where
  "zeroSyllables = emptyObject\<lparr> gender := Some boy, syllables := Some 0 \<rparr>"

text \<open>Nine copies of the dataset in a row: forty-five records, all boys.\<close>

definition longCorpus :: "NameRecord list" where
  "longCorpus = concat (replicate 9 MOCK_NAMES)"

text \<open>Forty records named Vihaan, then Vedant and Hriday.\<close>

definition tailCorpus :: "NameRecord list" where
  "tailCorpus = replicate 40 Vihaan @ [Vedant, Hriday]"

definition startsVeOrH :: WishFilters where
  "startsVeOrH = emptyObject\<lparr> gender := Some boy, startLetters := Some [''Ve'', ''H''] \<rparr>"

text \<open>A girl and a record of affinity \<^verbatim>\<open>"Multiple"\<close>, which the dataset lacks.\<close>

definition Veda :: NameRecord where
  "Veda = Vedant\<lparr> n_id := ''6'', n_name := ''Veda'', n_gender := girl \<rparr>"

definition Hari :: NameRecord where
  "Hari = Harish\<lparr> n_id := ''7'', n_name := ''Hari'', n_deityAffinity := Multiple \<rparr>"

definition mixedCorpus :: "NameRecord list" where
  "mixedCorpus = [Vihaan, Veda, Hari, Vedant]"

text \<open>No gender, and the three list-typed fields present but empty.\<close>

definition emptyLists :: WishFilters where
  "emptyLists = emptyObject\<lparr> sources := Some [], startLetters := Some [],
     startSounds := Some [] \<rparr>"

text \<open>\<^verbatim>\<open>{ gender: "boy", deity: "None" }\<close>\<close>

definition deityNone :: WishFilters where
  "deityNone = emptyObject\<lparr> gender := Some boy, deity := Some Deity_None \<rparr>"

text \<open>A full and a partial birth descriptor, and filters in Vedic mode holding them.\<close>

definition fullBirth :: Birth where
  "fullBirth = \<lparr> date = Some ''2024-05-01'', time = Some ''06:30'', place = Some ''Pune, India'' \<rparr>"

definition dateOnly :: Birth where
  "dateOnly = \<lparr> date = Some ''2024-05-01'', time = None, place = None \<rparr>"

definition timeAndPlace :: Birth where
  "timeAndPlace = \<lparr> date = None, time = Some ''06:30'', place = Some ''Pune, India'' \<rparr>"

definition vedicFilters :: WishFilters where
  "vedicFilters = initialFilters\<lparr> vedicMode := Some True, birth := Some (Value fullBirth) \<rparr>"

definition vedicPartial :: WishFilters where
  "vedicPartial = initialFilters\<lparr> vedicMode := Some True, birth := Some (Value dateOnly),
     startSounds := Some [''Va''] \<rparr>"

text \<open>A baseline and a parse fragment that both hold a syllable count and a birth.\<close>

definition baselineSample :: WishFilters where
  "baselineSample = emptyObject\<lparr> gender := Some boy, syllables := Some 3,
     birth := Some (Value timeAndPlace) \<rparr>"

definition fragmentSample :: WishFilters where
  "fragmentSample = emptyObject\<lparr> syllables := Some 2, birth := Some (Value dateOnly) \<rparr>"

text \<open>
  The initial filters with every field the search does not read changed, and a
  \<^verbatim>\<open>rawText\<close> besides.
\<close>

definition otherFields :: WishFilters where
  "otherFields = initialFilters\<lparr> script := Some Tamil, themes := Some [Royal, Music],
     vibe := Some strong, lengthMax := Some (Value 3), globalPronounce := Some False,
     birth := Some (Value fullBirth), vedicMode := Some True,
     extra := [''rawText'' \<mapsto> JStr ''two syllables, please''] \<rparr>"

text \<open>
  The state of a user who, after the search on mount, has chosen \<^verbatim>\<open>girl\<close> and typed a
  wish, and an endpoint that cannot be reached.
\<close>

definition girlPending :: AppState where
  "girlPending = initialState\<lparr> wishes := ''a girl, please'',
     filters := initialFilters\<lparr> gender := Some girl \<rparr>, results := MOCK_NAMES \<rparr>"

definition unreachable :: "string \<Rightarrow> fetched" where
  "unreachable text = NoResponse"

text \<open>A model whose answer is prose, and a \<^verbatim>\<open>JSON.parse\<close> that rejects every input.\<close>

definition proseModel :: "string \<Rightarrow> llm_result" where
  "proseModel p = LlmResponse (Some ''Sure! Here are some ideas.'')"

definition rejectAll :: "string \<Rightarrow> WishFilters option" where
  "rejectAll content = None"

definition proseEndpoint :: "string \<Rightarrow> fetched" where
  "proseEndpoint text = JsonBody (rawTextObject ''Sure! Here are some ideas.'')"

subsection \<open>The search as one filter\<close>

lemmas dataset_defs =
  MOCK_NAMES_def Vihaan_def Vedant_def Vasu_def Hriday_def Harish_def Veda_def Hari_def

lemmas string_defs = toLowerCase_def lowerChar_def startsWith_def

lemmas rule_defs =
  genderOk_def syllablesOk_def deityOk_def sourcesOk_def startLettersOk_def startSoundsOk_def

lemma stage_gender:
  "filter (\<lambda>n. n_gender n = (case gender F of Some g \<Rightarrow> g | None \<Rightarrow> n_gender n)) xs
     = filter (genderOk F) xs"
  by (auto simp: genderOk_def split: option.split intro: filter_cong)

lemma stage_syllables:
  "(case syllables F of
      Some k \<Rightarrow> if k \<noteq> 0 then filter (\<lambda>n. n_syllables n = k) xs else xs
    | None \<Rightarrow> xs) = filter (syllablesOk F) xs"
  by (auto simp: syllablesOk_def split: option.split intro: filter_cong)

lemma stage_deity:
  "(case deity F of
      Some d \<Rightarrow>
        if d \<noteq> Deity_None
        then filter (\<lambda>n. n_deityAffinity n = d \<or> n_deityAffinity n = Multiple) xs
        else xs
    | None \<Rightarrow> xs) = filter (deityOk F) xs"
  by (auto simp: deityOk_def split: option.split intro: filter_cong)

lemma stage_sources:
  "(case sources F of
      Some ss \<Rightarrow>
        if length ss \<noteq> 0
        then filter (\<lambda>n. list_ex (\<lambda>s. List.member ss s) (n_sources n)) xs
        else xs
    | None \<Rightarrow> xs) = filter (sourcesOk F) xs"
  by (auto simp: sourcesOk_def list_ex_iff split: option.split intro!: filter_cong)

lemma stage_startLetters:
  "(case startLetters F of
      Some ls \<Rightarrow>
        if length ls \<noteq> 0
        then filter (\<lambda>n. list_ex (\<lambda>s.
               startsWith (toLowerCase (n_name n)) (toLowerCase s)) ls) xs
        else xs
    | None \<Rightarrow> xs) = filter (startLettersOk F) xs"
  by (auto simp: startLettersOk_def list_ex_iff split: option.split intro!: filter_cong)

lemma stage_startSounds:
  "(case startSounds F of
      Some ls \<Rightarrow>
        if length ls \<noteq> 0
        then filter (\<lambda>n. list_ex (\<lambda>s.
               startsWith (toLowerCase (n_phoneticStart n)) (toLowerCase s)) ls) xs
        else xs
    | None \<Rightarrow> xs) = filter (startSoundsOk F) xs"
  by (auto simp: startSoundsOk_def list_ex_iff split: option.split intro!: filter_cong)

text \<open>The six stages of \<^verbatim>\<open>searchNames\<close> amount to one pass with the conjunction.\<close>

lemma searchNamesIn_filter:
  "searchNamesIn corpus F = take 40 (filter (satisfies F) corpus)"
proof -
  have "searchNamesIn corpus F =
    take 40 (filter (startSoundsOk F) (filter (startLettersOk F) (filter (sourcesOk F)
      (filter (deityOk F) (filter (syllablesOk F) (filter (genderOk F) corpus))))))"
    unfolding searchNamesIn_def Let_def
    by (simp only: stage_gender stage_syllables stage_deity stage_sources stage_startLetters
        stage_startSounds)
  also have "\<dots> = take 40 (filter (satisfies F) corpus)"
    by (simp add: satisfies_def conj_ac cong: filter_cong)
  finally show ?thesis .
qed

lemma length_MOCK_NAMES: "length MOCK_NAMES = 5"
  by (simp add: MOCK_NAMES_def)

lemma searchNames_filter: "searchNames F = filter (satisfies F) MOCK_NAMES"
proof -
  have "length (filter (satisfies F) MOCK_NAMES) \<le> 5"
    using length_filter_le [of "satisfies F" MOCK_NAMES] by (simp add: length_MOCK_NAMES)
  then show ?thesis
    by (simp add: searchNames_def searchNamesIn_filter)
qed

text \<open>A record satisfies the filter exactly when the search over it alone returns it.\<close>

lemma satisfies_singleton: "(searchNamesIn [r] F = [r]) = satisfies F r"
  by (simp add: searchNamesIn_filter)

text \<open>The stricter reading of the syllable rule implies the one the code applies.\<close>

lemma satisfiesAsStated_satisfies: "satisfiesAsStated F r \<Longrightarrow> satisfies F r"
  by (auto simp: satisfiesAsStated_def satisfies_def syllablesOkWhenSet_def syllablesOk_def
      split: option.splits)

lemma filter_at_position:
  assumes "i < length xs" and "P (xs ! i)"
  shows "filter P xs = filter P (take i xs) @ xs ! i # filter P (drop (Suc i) xs)"
proof -
  have "xs = take i xs @ xs ! i # drop (Suc i) xs"
    using assms(1) by (simp add: id_take_nth_drop)
  then have "filter P xs = filter P (take i xs @ xs ! i # drop (Suc i) xs)"
    by simp
  then show ?thesis using assms(2) by simp
qed

lemma found_before_cap:
  assumes "i < length corpus" and "satisfies F (corpus ! i)"
    and "length (filter (satisfies F) (take i corpus)) < 40"
  shows "corpus ! i \<in> set (searchNamesIn corpus F)"
proof -
  let ?before = "filter (satisfies F) (take i corpus)"
  let ?after = "filter (satisfies F) (drop (Suc i) corpus)"
  have "filter (satisfies F) corpus = ?before @ corpus ! i # ?after"
    using assms(1,2) by (rule filter_at_position)
  then have "take 40 (filter (satisfies F) corpus)
      = ?before @ corpus ! i # take (40 - Suc (length ?before)) ?after"
    using assms(3) by (simp add: take_Cons')
  then show ?thesis by (simp add: searchNamesIn_filter)
qed

lemma spreadKey_None [simp]: "spreadKey None b = b"
  by (cases b) (simp_all add: spreadKey_def)

lemma spread_emptyObject [simp]: "spread emptyObject F = F"
  by (simp add: spread_def emptyObject_def)

subsection \<open>Name Matcher\<close>

text \<open>
  Claim C1, as stated, fails on a filter whose syllable count is 0: the test
  \<^verbatim>\<open>if (filters.syllables)\<close> is false for 0, the syllable stage is skipped, and the
  search for \<^verbatim>\<open>{ gender: "boy", syllables: 0 }\<close> returns all five records, Vihaan of two
  syllables among them.
\<close>

theorem C1_zero_syllables_counterexample:
  "syllables zeroSyllables = Some 0 \<and> searchNames zeroSyllables = MOCK_NAMES
   \<and> Vihaan \<in> set (searchNames zeroSyllables) \<and> n_syllables Vihaan = 2
   \<and> \<not> satisfiesAsStated zeroSyllables Vihaan"
  by (simp add: zeroSyllables_def emptyObject_def searchNames_def searchNamesIn_def dataset_defs
      satisfiesAsStated_def syllablesOkWhenSet_def)

text \<open>
  Claim C1, amended: every record \<^verbatim>\<open>searchNames\<close> returns, from the dataset or from any
  other corpus, satisfies every active constraint of the filter, where the syllable
  constraint is active when the count is set and not 0: its gender is the filter's,
  its syllable count is the filter's, its deity affinity is the filter's deity or
  \<^verbatim>\<open>"Multiple"\<close>, it shares a source with the filter, its lowercased name starts with
  a lowercased start letter, and its lowercased phonetic start starts with a lowercased
  start sound.
\<close>

theorem C1_soundness:
  "(r \<in> set (searchNames F) \<longrightarrow> satisfies F r)
   \<and> (r \<in> set (searchNamesIn corpus F) \<longrightarrow> r \<in> set corpus \<and> satisfies F r)"
  by (auto simp: searchNames_filter searchNamesIn_filter dest: in_set_takeD)

theorem C1_soundness_witness:
  "searchNames sixConstraints = [Vihaan]
   \<and> n_gender Vihaan = boy \<and> n_syllables Vihaan = 2 \<and> n_deityAffinity Vihaan = Vishnu
   \<and> Puranas \<in> set (n_sources Vihaan)
   \<and> startsWith (toLowerCase (n_name Vihaan)) (toLowerCase ''VI'')
   \<and> startsWith (toLowerCase (n_phoneticStart Vihaan)) (toLowerCase ''V'')
   \<and> satisfies sixConstraints Vihaan"
proof -
  have found: "searchNames sixConstraints = [Vihaan]"
    by (simp add: sixConstraints_def emptyObject_def searchNames_def searchNamesIn_def
        dataset_defs string_defs)
  then have "Vihaan \<in> set (searchNames sixConstraints)"
    by simp
  with C1_soundness [of Vihaan sixConstraints MOCK_NAMES]
  have "satisfies sixConstraints Vihaan"
    by blast
  with found show ?thesis
    by (simp add: Vihaan_def string_defs)
qed

text \<open>
  Claim C2: a record of the corpus that satisfies every active constraint is in the
  output unless forty satisfying records stand before it. In the dataset, of five
  records, every satisfying record is in the output, under either reading of the
  syllable rule; in a corpus of any length, the record at position \<open>i\<close> is in the
  output when it satisfies the filter and fewer than forty records before position
  \<open>i\<close> do.
\<close>

theorem C2_completeness_up_to_cap:
  "(r \<in> set MOCK_NAMES \<and> satisfiesAsStated F r \<longrightarrow> r \<in> set (searchNames F))
   \<and> (r \<in> set MOCK_NAMES \<and> satisfies F r \<longrightarrow> r \<in> set (searchNames F))
   \<and> (i < length corpus \<and> satisfies F (corpus ! i)
        \<and> length (filter (satisfies F) (take i corpus)) < 40
      \<longrightarrow> corpus ! i \<in> set (searchNamesIn corpus F))"
  using found_before_cap [of i corpus F] satisfiesAsStated_satisfies [of F r]
  by (auto simp: searchNames_filter)

theorem C2_completeness_up_to_cap_witness:
  "Hriday \<in> set MOCK_NAMES \<and> satisfiesAsStated startsVeOrH Hriday
   \<and> satisfies startsVeOrH Hriday
   \<and> Hriday \<in> set (searchNames startsVeOrH)
   \<and> 41 < length tailCorpus \<and> tailCorpus ! 41 = Hriday
   \<and> length (filter (satisfies startsVeOrH) (take 41 tailCorpus)) = 1
   \<and> Hriday \<in> set (searchNamesIn tailCorpus startsVeOrH)"
proof -
  have stated: "satisfiesAsStated startsVeOrH Hriday"
    by (simp add: satisfiesAsStated_def syllablesOkWhenSet_def rule_defs startsVeOrH_def
        emptyObject_def Hriday_def string_defs)
  then have sat: "satisfies startsVeOrH Hriday"
    by (rule satisfiesAsStated_satisfies)
  have notVihaan: "\<not> satisfies startsVeOrH Vihaan"
    by (simp add: satisfies_def rule_defs startsVeOrH_def emptyObject_def Vihaan_def string_defs)
  have vedant: "satisfies startsVeOrH Vedant"
    by (simp add: satisfies_def rule_defs startsVeOrH_def emptyObject_def Vedant_def string_defs)
  have mem: "Hriday \<in> set MOCK_NAMES"
    by (simp add: MOCK_NAMES_def)
  have len: "41 < length tailCorpus" and at: "tailCorpus ! 41 = Hriday"
    by (simp_all add: tailCorpus_def nth_append)
  have before: "length (filter (satisfies startsVeOrH) (take 41 tailCorpus)) = 1"
    by (simp add: tailCorpus_def filter_replicate notVihaan vedant)
  from C2_completeness_up_to_cap [of Hriday startsVeOrH 41 tailCorpus]
    stated sat mem len at before
  show ?thesis by simp
qed

text \<open>
  Claim C5: the output is the corpus filtered by the active constraints, in the order
  of the corpus, cut after forty records. It is a subsequence of the corpus, its length
  is the smaller of 40 and the number of satisfying records, so records past the
  fortieth are left out and nothing fails; on the dataset the cut removes nothing.
  The satisfying records are those the search keeps when each is the whole corpus.
\<close>

theorem C5_order_and_cap:
  "searchNamesIn corpus F = take 40 (filter (satisfies F) corpus)
   \<and> subseq (searchNamesIn corpus F) corpus
   \<and> length (searchNamesIn corpus F) = min 40 (length (filter (satisfies F) corpus))
   \<and> length (searchNamesIn corpus F) \<le> 40
   \<and> searchNames F = filter (satisfies F) MOCK_NAMES
   \<and> (searchNamesIn [r] F = [r]) = satisfies F r"
proof -
  have "subseq (take 40 (filter (satisfies F) corpus)) (filter (satisfies F) corpus)"
    by (rule prefix_imp_subseq) (rule take_is_prefix)
  then have "subseq (take 40 (filter (satisfies F) corpus)) corpus"
    using subseq_filter_left subseq_order.trans by blast
  then show ?thesis
    by (simp add: searchNamesIn_filter searchNames_filter)
qed

theorem C5_order_and_cap_witness:
  "length longCorpus = 45 \<and> length (filter (satisfies initialFilters) longCorpus) = 45
   \<and> searchNamesIn longCorpus initialFilters = take 40 longCorpus
   \<and> length (searchNamesIn longCorpus initialFilters) = 40"
proof -
  have sat: "satisfies initialFilters Vihaan" "satisfies initialFilters Vedant"
    "satisfies initialFilters Vasu" "satisfies initialFilters Hriday"
    "satisfies initialFilters Harish"
    by (simp_all add: satisfies_def rule_defs initialFilters_def emptyObject_def dataset_defs)
  have all: "filter (satisfies initialFilters) longCorpus = longCorpus"
    by (simp add: longCorpus_def MOCK_NAMES_def sat eval_nat_numeral)
  have len: "length longCorpus = 45"
    by (simp add: longCorpus_def MOCK_NAMES_def eval_nat_numeral)
  from C5_order_and_cap [of longCorpus initialFilters] all len
  show ?thesis by simp
qed

text \<open>
  Claim C8: the filter \<^verbatim>\<open>{ gender: "boy", deity: "Vishnu" }\<close> over the dataset of five
  yields Vihaan, Vasu and Harish, in that order: the three records whose deity
  affinity is \<^verbatim>\<open>"Vishnu"\<close>, none of the five having \<^verbatim>\<open>"Multiple"\<close>.
\<close>

theorem C8_scenario_boy_vishnu:
  "searchNames (emptyObject\<lparr> gender := Some boy, deity := Some Vishnu \<rparr>) = [Vihaan, Vasu, Harish]
   \<and> map n_name (searchNames (emptyObject\<lparr> gender := Some boy, deity := Some Vishnu \<rparr>))
       = [''Vihaan'', ''Vasu'', ''Harish'']
   \<and> length MOCK_NAMES = 5
   \<and> map n_deityAffinity MOCK_NAMES = [Vishnu, Deity_None, Vishnu, Deity_None, Vishnu]"
  by (simp add: emptyObject_def searchNames_def searchNamesIn_def dataset_defs)

text \<open>
  Claim C7: with no gender in the filter the gender check passes every record, so the
  output is decided by the other five rules alone, and whatever the search finds for a
  given gender it also finds with the gender left out. A list-typed field that is
  present but empty restricts nothing: the output is the one of the filter without
  that field.
\<close>

theorem C7_inactive_constraints:
  "(gender F = None \<longrightarrow>
      genderOk F r
      \<and> searchNamesIn corpus F = take 40 (filter (satisfiesBesidesGender F) corpus)
      \<and> set (searchNames (F\<lparr> gender := Some g \<rparr>)) \<subseteq> set (searchNames F))
   \<and> (sources F = Some [] \<longrightarrow>
      sourcesOk F r \<and> searchNamesIn corpus F = searchNamesIn corpus (F\<lparr> sources := None \<rparr>))
   \<and> (startLetters F = Some [] \<longrightarrow>
      startLettersOk F r
      \<and> searchNamesIn corpus F = searchNamesIn corpus (F\<lparr> startLetters := None \<rparr>))
   \<and> (startSounds F = Some [] \<longrightarrow>
      startSoundsOk F r
      \<and> searchNamesIn corpus F = searchNamesIn corpus (F\<lparr> startSounds := None \<rparr>))"
proof -
  have gender_free: "satisfies F = satisfiesBesidesGender F" if "gender F = None"
    using that by (simp add: satisfies_def satisfiesBesidesGender_def genderOk_def fun_eq_iff)
  have weaker: "satisfies F x"
    if "gender F = None" and "satisfies (F\<lparr> gender := Some g \<rparr>) x" for x
    using that by (simp add: satisfies_def rule_defs)
  have g1: "genderOk F r" if "gender F = None"
    using that by (simp add: genderOk_def)
  have g2: "searchNamesIn corpus F = take 40 (filter (satisfiesBesidesGender F) corpus)"
    if "gender F = None"
    using that by (simp add: searchNamesIn_filter gender_free)
  have g3: "set (searchNames (F\<lparr> gender := Some g \<rparr>)) \<subseteq> set (searchNames F)"
    if "gender F = None"
    using that weaker by (auto simp: searchNames_filter)
  have s: "sourcesOk F r \<and> searchNamesIn corpus F = searchNamesIn corpus (F\<lparr> sources := None \<rparr>)"
    if "sources F = Some []"
    using that by (simp add: sourcesOk_def searchNamesIn_def)
  have l: "startLettersOk F r
      \<and> searchNamesIn corpus F = searchNamesIn corpus (F\<lparr> startLetters := None \<rparr>)"
    if "startLetters F = Some []"
    using that by (simp add: startLettersOk_def searchNamesIn_def)
  have p: "startSoundsOk F r
      \<and> searchNamesIn corpus F = searchNamesIn corpus (F\<lparr> startSounds := None \<rparr>)"
    if "startSounds F = Some []"
    using that by (simp add: startSoundsOk_def searchNamesIn_def)
  from g1 g2 g3 s l p show ?thesis
    by blast
qed

theorem C7_inactive_constraints_witness:
  "gender emptyLists = None \<and> sources emptyLists = Some [] \<and> startLetters emptyLists = Some []
   \<and> startSounds emptyLists = Some []
   \<and> searchNamesIn mixedCorpus emptyLists = mixedCorpus
   \<and> map n_gender mixedCorpus = [boy, girl, boy, boy]
   \<and> set (searchNames (emptyLists\<lparr> gender := Some boy \<rparr>)) \<subseteq> set (searchNames emptyLists)"
proof -
  have fields: "gender emptyLists = None" "sources emptyLists = Some []"
    "startLetters emptyLists = Some []" "startSounds emptyLists = Some []"
    by (simp_all add: emptyLists_def emptyObject_def)
  have without: "searchNamesIn mixedCorpus (emptyLists\<lparr> sources := None \<rparr>) = mixedCorpus"
    by (simp add: emptyLists_def emptyObject_def searchNamesIn_def mixedCorpus_def)
  have genders: "map n_gender mixedCorpus = [boy, girl, boy, boy]"
    by (simp add: mixedCorpus_def dataset_defs)
  from C7_inactive_constraints [of emptyLists Veda mixedCorpus boy] fields
  have "searchNamesIn mixedCorpus emptyLists
          = searchNamesIn mixedCorpus (emptyLists\<lparr> sources := None \<rparr>)"
    and "set (searchNames (emptyLists\<lparr> gender := Some boy \<rparr>)) \<subseteq> set (searchNames emptyLists)"
    by blast+
  with fields without genders show ?thesis
    by simp
qed

text \<open>
  Claim C9: a filter whose deity is \<^verbatim>\<open>"None"\<close> puts no deity restriction on the
  search. Every record passes the deity rule whatever its affinity, and the output is
  the one of the filter with no deity at all.
\<close>

theorem C9_deity_none_inactive:
  "deity F = Some Deity_None \<Longrightarrow>
     deityOk F r
     \<and> searchNamesIn corpus F = searchNamesIn corpus (F\<lparr> deity := None \<rparr>)
     \<and> searchNames F = searchNames (F\<lparr> deity := None \<rparr>)"
  by (simp add: deityOk_def searchNames_def searchNamesIn_def)

theorem C9_deity_none_inactive_witness:
  "deity deityNone = Some Deity_None
   \<and> searchNamesIn mixedCorpus deityNone = [Vihaan, Hari, Vedant]
   \<and> map n_deityAffinity [Vihaan, Hari, Vedant] = [Vishnu, Multiple, Deity_None]
   \<and> searchNames deityNone = MOCK_NAMES"
proof -
  have d: "deity deityNone = Some Deity_None"
    by (simp add: deityNone_def emptyObject_def)
  have mixed: "searchNamesIn mixedCorpus (deityNone\<lparr> deity := None \<rparr>) = [Vihaan, Hari, Vedant]"
    by (simp add: deityNone_def emptyObject_def searchNamesIn_def mixedCorpus_def dataset_defs)
  have five: "searchNames (deityNone\<lparr> deity := None \<rparr>) = MOCK_NAMES"
    by (simp add: deityNone_def emptyObject_def searchNames_def searchNamesIn_def dataset_defs)
  from C9_deity_none_inactive [OF d, of Vihaan mixedCorpus] mixed five d
  show ?thesis
    by (simp add: dataset_defs)
qed

text \<open>
  Claim C10: two filters that agree on gender, syllables, deity, sources, startLetters
  and startSounds yield the same output in the same order, whatever their script,
  themes, vibe, lengthMax, globalPronounce, birth, vedicMode and extra properties are.
\<close>

theorem C10_unread_fields:
  assumes "gender F = gender G" and "syllables F = syllables G" and "deity F = deity G"
    and "sources F = sources G" and "startLetters F = startLetters G"
    and "startSounds F = startSounds G"
  shows "searchNamesIn corpus F = searchNamesIn corpus G \<and> searchNames F = searchNames G"
  using assms by (simp add: searchNames_def searchNamesIn_def)

theorem C10_unread_fields_witness:
  "script initialFilters \<noteq> script otherFields \<and> themes initialFilters \<noteq> themes otherFields
   \<and> vibe initialFilters \<noteq> vibe otherFields \<and> lengthMax initialFilters \<noteq> lengthMax otherFields
   \<and> globalPronounce initialFilters \<noteq> globalPronounce otherFields
   \<and> birth initialFilters \<noteq> birth otherFields \<and> vedicMode initialFilters \<noteq> vedicMode otherFields
   \<and> extra initialFilters ''rawText'' \<noteq> extra otherFields ''rawText''
   \<and> searchNames initialFilters = searchNames otherFields
   \<and> searchNames otherFields = MOCK_NAMES"
proof -
  have same: "searchNames initialFilters = searchNames otherFields"
    by (rule C10_unread_fields [of initialFilters otherFields MOCK_NAMES, THEN conjunct2])
      (simp_all add: otherFields_def)
  have five: "searchNames initialFilters = MOCK_NAMES"
    by (simp add: initialFilters_def emptyObject_def searchNames_def searchNamesIn_def dataset_defs)
  from same five show ?thesis
    by (simp add: otherFields_def initialFilters_def emptyObject_def)
qed

subsection \<open>Filter Resolver\<close>

lemma spreadKey_absent [simp]: "spreadKey a None = a"
  by (simp add: spreadKey_def)

lemma spread_emptyObject_right [simp]: "spread A emptyObject = A"
  by (simp add: spread_def emptyObject_def)

lemma precedence_spreadKey: "precedence a b (spreadKey a b)"
  by (cases b) (simp_all add: precedence_def spreadKey_def)

text \<open>Spreading the route's fallback object over a filter adds the raw text and no more.\<close>

lemma spread_rawTextObject:
  "spread A (rawTextObject content) = A\<lparr> extra := (extra A)(''rawText'' \<mapsto> JStr content) \<rparr>"
proof -
  have "(\<lambda>k. spreadKey (extra A k) ([''rawText'' \<mapsto> JStr content] k))
      = (extra A)(''rawText'' \<mapsto> JStr content)"
    by (rule ext) (simp add: spreadKey_def)
  then show ?thesis
    by (simp add: spread_def rawTextObject_def emptyObject_def)
qed

lemma searchNames_extra: "searchNames (F\<lparr> extra := e \<rparr>) = searchNames F"
  by (simp add: searchNames_def searchNamesIn_def)

text \<open>The enrichment reads the Vedic flag and the birth, and writes \<open>startSounds\<close>.\<close>

lemma enrichment_gate:
  "(truthyString (optChain (birth F) date) \<and> truthyString (optChain (birth F) time)
      \<and> truthyString (optChain (birth F) place)) = birthComplete F"
  by (simp add: birthComplete_def optChain_def truthyString_def
      split: option.split nullable.split)

lemma resolveParsed_cases:
  "resolveParsed A B =
     (if truthyBool (vedicMode (spread A B)) \<and> birthComplete (spread A B)
      then (case birth (spread A B) of
              Some (Value b) \<Rightarrow>
                (spread A B)\<lparr> startSounds := Some (astro_startSounds (getNakshatra b)) \<rparr>
            | _ \<Rightarrow> spread A B)
      else spread A B)"
  by (simp add: resolveParsed_def Let_def enrichment_gate)

lemma resolveSearch_cases:
  "resolveSearch t A =
     (if t = vedic \<and> birthComplete A
      then (case birth A of
              Some (Value b) \<Rightarrow> A\<lparr> startSounds := Some (astro_startSounds (getNakshatra b)) \<rparr>
            | _ \<Rightarrow> A)
      else A)"
  by (simp add: resolveSearch_def Let_def enrichment_gate)

lemma resolveParsed_not_vedic:
  "\<not> truthyBool (vedicMode A) \<Longrightarrow> resolveParsed A emptyObject = A"
  by (simp add: resolveParsed_cases)

lemma resolveParsed_rawTextObject:
  "resolveParsed A (rawTextObject content)
     = (resolveParsed A emptyObject)\<lparr> extra := (extra A)(''rawText'' \<mapsto> JStr content) \<rparr>"
  by (simp add: resolveParsed_cases spread_rawTextObject birthComplete_def
      split: option.split nullable.split)

text \<open>
  Claim C3: in the merge \<^verbatim>\<open>{ ...filters, ...parsed }\<close> of \<^verbatim>\<open>runParseAndSearch\<close>, each
  top-level field is the fragment's when the fragment has it and the baseline's when it
  has not; so is every property outside the declared type. The birth object comes whole
  from the fragment when the fragment has one. Baseline \<^verbatim>\<open>{ gender: "boy" }\<close> and
  fragment \<^verbatim>\<open>{ syllables: 2 }\<close> merge to \<^verbatim>\<open>{ gender: "boy", syllables: 2 }\<close>. The filter
  the handler goes on with is this merge in every field but \<open>startSounds\<close>, which the
  enrichment that follows may set.
\<close>

theorem C3_merge_precedence:
  "precedence (gender A) (gender B) (gender (spread A B))
   \<and> precedence (syllables A) (syllables B) (syllables (spread A B))
   \<and> precedence (script A) (script B) (script (spread A B))
   \<and> precedence (deity A) (deity B) (deity (spread A B))
   \<and> precedence (sources A) (sources B) (sources (spread A B))
   \<and> precedence (themes A) (themes B) (themes (spread A B))
   \<and> precedence (startLetters A) (startLetters B) (startLetters (spread A B))
   \<and> precedence (vibe A) (vibe B) (vibe (spread A B))
   \<and> precedence (lengthMax A) (lengthMax B) (lengthMax (spread A B))
   \<and> precedence (globalPronounce A) (globalPronounce B) (globalPronounce (spread A B))
   \<and> precedence (birth A) (birth B) (birth (spread A B))
   \<and> precedence (vedicMode A) (vedicMode B) (vedicMode (spread A B))
   \<and> precedence (startSounds A) (startSounds B) (startSounds (spread A B))
   \<and> precedence (extra A k) (extra B k) (extra (spread A B) k)
   \<and> (birth B = Some b \<longrightarrow> birth (spread A B) = Some b)
   \<and> spread (emptyObject\<lparr> gender := Some boy \<rparr>) (emptyObject\<lparr> syllables := Some 2 \<rparr>)
       = emptyObject\<lparr> gender := Some boy, syllables := Some 2 \<rparr>
   \<and> resolveParsed A B = (spread A B)\<lparr> startSounds := startSounds (resolveParsed A B) \<rparr>"
proof -
  have unit: "birth (spread A B) = Some b" if "birth B = Some b"
    using that by (simp add: spread_def spreadKey_def)
  have scenario: "spread (emptyObject\<lparr> gender := Some boy \<rparr>) (emptyObject\<lparr> syllables := Some 2 \<rparr>)
      = emptyObject\<lparr> gender := Some boy, syllables := Some 2 \<rparr>"
    by (simp add: spread_def emptyObject_def)
  have frame: "resolveParsed A B = (spread A B)\<lparr> startSounds := startSounds (resolveParsed A B) \<rparr>"
    by (simp add: resolveParsed_cases split: option.split nullable.split)
  have keys: "precedence (gender A) (gender B) (gender (spread A B))"
    "precedence (syllables A) (syllables B) (syllables (spread A B))"
    "precedence (script A) (script B) (script (spread A B))"
    "precedence (deity A) (deity B) (deity (spread A B))"
    "precedence (sources A) (sources B) (sources (spread A B))"
    "precedence (themes A) (themes B) (themes (spread A B))"
    "precedence (startLetters A) (startLetters B) (startLetters (spread A B))"
    "precedence (vibe A) (vibe B) (vibe (spread A B))"
    "precedence (lengthMax A) (lengthMax B) (lengthMax (spread A B))"
    "precedence (globalPronounce A) (globalPronounce B) (globalPronounce (spread A B))"
    "precedence (birth A) (birth B) (birth (spread A B))"
    "precedence (vedicMode A) (vedicMode B) (vedicMode (spread A B))"
    "precedence (startSounds A) (startSounds B) (startSounds (spread A B))"
    "precedence (extra A k) (extra B k) (extra (spread A B) k)"
    by (simp_all add: spread_def precedence_spreadKey)
  from keys unit scenario frame show ?thesis
    by (intro conjI impI)
qed

theorem C3_merge_precedence_witness:
  "syllables baselineSample = Some 3 \<and> syllables fragmentSample = Some 2
   \<and> syllables (spread baselineSample fragmentSample) = Some 2
   \<and> gender fragmentSample = None \<and> gender (spread baselineSample fragmentSample) = Some boy
   \<and> birth baselineSample = Some (Value timeAndPlace)
   \<and> birth fragmentSample = Some (Value dateOnly)
   \<and> birth (spread baselineSample fragmentSample) = Some (Value dateOnly)
   \<and> time dateOnly = None"
proof -
  have given: "syllables baselineSample = Some 3" "syllables fragmentSample = Some 2"
    "gender baselineSample = Some boy" "gender fragmentSample = None"
    "birth baselineSample = Some (Value timeAndPlace)"
    "birth fragmentSample = Some (Value dateOnly)" "time dateOnly = None"
    by (simp_all add: baselineSample_def fragmentSample_def emptyObject_def dateOnly_def)
  from C3_merge_precedence [of baselineSample fragmentSample _ "Value dateOnly"] given
  show ?thesis
    by (simp add: precedence_def)
qed

text \<open>
  Claim C4, as stated, fails in \<^verbatim>\<open>onSearch\<close>, whose gate is the selected tab and not
  the filter's \<^verbatim>\<open>vedicMode\<close>: with the flag set and a full birth descriptor but the
  Quick tab selected, \<open>startSounds\<close> stays unset and the search returns all five
  records, where the astrology sounds would leave none.
\<close>

theorem C4_onSearch_counterexample:
  "vedicMode vedicFilters = Some True \<and> birth vedicFilters = Some (Value fullBirth)
   \<and> birthComplete vedicFilters
   \<and> tab (initialState\<lparr> filters := vedicFilters \<rparr>) = quick
   \<and> startSounds (resolveSearch quick vedicFilters) = None
   \<and> astro_startSounds (getNakshatra fullBirth) = [''Hu'', ''He'', ''Ho'', ''Da'']
   \<and> results (onSearch (initialState\<lparr> filters := vedicFilters \<rparr>)) = MOCK_NAMES
   \<and> searchNames (vedicFilters\<lparr> startSounds := Some [''Hu'', ''He'', ''Ho'', ''Da''] \<rparr>) = []"
proof -
  have flat: "vedicFilters = emptyObject\<lparr> gender := Some boy, script := Some Latin,
      vibe := Some any_vibe, vedicMode := Some True, lengthMax := Some Null,
      globalPronounce := Some True, birth := Some (Value fullBirth) \<rparr>"
    by (simp add: vedicFilters_def initialFilters_def)
  have same: "resolveSearch quick vedicFilters = vedicFilters"
    by (simp add: resolveSearch_cases)
  have five: "searchNames vedicFilters = MOCK_NAMES"
    by (simp add: flat emptyObject_def searchNames_def searchNamesIn_def dataset_defs)
  have none: "searchNames (vedicFilters\<lparr> startSounds := Some [''Hu'', ''He'', ''Ho'', ''Da''] \<rparr>) = []"
    by (simp add: flat emptyObject_def searchNames_def searchNamesIn_def dataset_defs string_defs)
  have complete: "birthComplete vedicFilters"
    by (simp add: flat emptyObject_def birthComplete_def fullBirth_def truthyString_def)
  from same five none complete show ?thesis
    by (simp add: onSearch_def Let_def initialState_def getNakshatra_def)
      (simp add: flat emptyObject_def)
qed

text \<open>
  Claim C4, amended. In \<^verbatim>\<open>runParseAndSearch\<close>, when the merged filter has
  \<^verbatim>\<open>vedicMode\<close> true and birth date, time and place all present and non-empty,
  \<open>startSounds\<close> is set to the sounds \<^verbatim>\<open>getNakshatra\<close> returns for that birth, and
  nothing else changes; otherwise the merged filter is left as it is, \<open>startSounds\<close>
  included. In \<^verbatim>\<open>onSearch\<close> the same holds with the gate "the Vedic tab is selected"
  in place of the filter's \<^verbatim>\<open>vedicMode\<close>, which \<^verbatim>\<open>onSearch\<close> does not read.
\<close>

theorem C4_enrichment_gating:
  "(truthyBool (vedicMode (spread A B)) \<and> birth (spread A B) = Some (Value b)
      \<and> birthComplete (spread A B)
    \<longrightarrow> resolveParsed A B
          = (spread A B)\<lparr> startSounds := Some (astro_startSounds (getNakshatra b)) \<rparr>)
   \<and> (\<not> truthyBool (vedicMode (spread A B)) \<or> \<not> birthComplete (spread A B)
    \<longrightarrow> resolveParsed A B = spread A B)
   \<and> (t = vedic \<and> birth A = Some (Value b) \<and> birthComplete A
    \<longrightarrow> resolveSearch t A = A\<lparr> startSounds := Some (astro_startSounds (getNakshatra b)) \<rparr>)
   \<and> (t \<noteq> vedic \<or> \<not> birthComplete A \<longrightarrow> resolveSearch t A = A)"
  by (auto simp: resolveParsed_cases resolveSearch_cases)

theorem C4_enrichment_gating_witness:
  "truthyBool (vedicMode vedicFilters) \<and> birthComplete vedicFilters
   \<and> startSounds vedicFilters = None
   \<and> startSounds (resolveParsed vedicFilters emptyObject) = Some [''Hu'', ''He'', ''Ho'', ''Da'']
   \<and> startSounds (resolveSearch vedic vedicFilters) = Some [''Hu'', ''He'', ''Ho'', ''Da'']
   \<and> truthyBool (vedicMode vedicPartial) \<and> \<not> birthComplete vedicPartial
   \<and> startSounds vedicPartial = Some [''Va'']
   \<and> startSounds (resolveParsed vedicPartial emptyObject) = Some [''Va'']
   \<and> startSounds (resolveSearch vedic vedicPartial) = Some [''Va'']"
proof -
  have full: "truthyBool (vedicMode vedicFilters)" "birth vedicFilters = Some (Value fullBirth)"
    "birthComplete vedicFilters" "startSounds vedicFilters = None"
    by (simp_all add: vedicFilters_def initialFilters_def emptyObject_def truthyBool_def
        birthComplete_def fullBirth_def truthyString_def)
  have part: "truthyBool (vedicMode vedicPartial)" "\<not> birthComplete vedicPartial"
    "startSounds vedicPartial = Some [''Va'']"
    by (simp_all add: vedicPartial_def initialFilters_def emptyObject_def truthyBool_def
        birthComplete_def dateOnly_def truthyString_def)
  from C4_enrichment_gating [of vedicFilters emptyObject fullBirth vedic] full
  have a: "resolveParsed vedicFilters emptyObject
        = vedicFilters\<lparr> startSounds := Some (astro_startSounds (getNakshatra fullBirth)) \<rparr>"
    and b: "resolveSearch vedic vedicFilters
        = vedicFilters\<lparr> startSounds := Some (astro_startSounds (getNakshatra fullBirth)) \<rparr>"
    by simp_all
  from C4_enrichment_gating [of vedicPartial emptyObject fullBirth vedic] part
  have c: "resolveParsed vedicPartial emptyObject = vedicPartial"
    and d: "resolveSearch vedic vedicPartial = vedicPartial"
    by simp_all
  from full part show ?thesis
    by (simp add: a b c d getNakshatra_def)
qed

text \<open>
  Claim C6, as stated, fails when the endpoint cannot be reached: \<^verbatim>\<open>fetch\<close> rejects,
  \<^verbatim>\<open>runParseAndSearch\<close> has a \<^verbatim>\<open>finally\<close> and no \<^verbatim>\<open>catch\<close>, and the rejection leaves
  the handler. No search runs: the results stay the five boys of the search on mount,
  although the baseline filters, which ask for a girl, match no record.
\<close>

theorem C6_unreachable_counterexample:
  "fst (runParseAndSearch unreachable girlPending) = Some FetchRejected
   \<and> results (snd (runParseAndSearch unreachable girlPending)) = MOCK_NAMES
   \<and> searchNames (resolveParsed (filters girlPending) emptyObject) = []"
proof -
  have flat: "filters girlPending = emptyObject\<lparr> gender := Some girl, script := Some Latin,
      vibe := Some any_vibe, vedicMode := Some False, lengthMax := Some Null,
      globalPronounce := Some True \<rparr>"
    by (simp add: girlPending_def initialState_def initialFilters_def)
  have "\<not> truthyBool (vedicMode (filters girlPending))"
    by (simp add: flat emptyObject_def truthyBool_def)
  then have "resolveParsed (filters girlPending) emptyObject = filters girlPending"
    by (rule resolveParsed_not_vedic)
  moreover have "searchNames (filters girlPending) = []"
    by (simp add: flat emptyObject_def searchNames_def searchNamesIn_def dataset_defs)
  ultimately show ?thesis
    by (simp add: runParseAndSearch_def parseWishesLLM_def unreachable_def Let_def
        girlPending_def initialState_def)
qed

text \<open>
  Claim C6, amended. When the model's output is not JSON, the route answers with
  \<^verbatim>\<open>{ rawText: content }\<close>; \<^verbatim>\<open>runParseAndSearch\<close> then completes without an
  exception, its results are those of the baseline filters resolved alone, and the
  filters it stores are the baseline's with the raw text added, so the raw text adds
  no constraint. When \<^verbatim>\<open>fetch\<close> rejects or the body of the response is not JSON, the
  exception leaves \<^verbatim>\<open>runParseAndSearch\<close>, which only resets \<^verbatim>\<open>loading\<close>.
\<close>

theorem C6_parse_failure:
  "(client (prompt text) = LlmResponse output
      \<and> JSON_parse (case output of Some t \<Rightarrow> t | None \<Rightarrow> []) = None
    \<longrightarrow> POST client JSON_parse text
          = Inr (rawTextObject (case output of Some t \<Rightarrow> t | None \<Rightarrow> [])))
   \<and> (endpoint (wishes st) = JsonBody (rawTextObject content)
    \<longrightarrow> fst (runParseAndSearch endpoint st) = None
        \<and> results (snd (runParseAndSearch endpoint st))
            = searchNames (resolveParsed (filters st) emptyObject)
        \<and> filters (snd (runParseAndSearch endpoint st))
            = (resolveParsed (filters st) emptyObject)
                \<lparr> extra := (extra (filters st))(''rawText'' \<mapsto> JStr content) \<rparr>
        \<and> loading (snd (runParseAndSearch endpoint st)) = False)
   \<and> (endpoint (wishes st) = NoResponse
    \<longrightarrow> runParseAndSearch endpoint st = (Some FetchRejected, st\<lparr> loading := False \<rparr>))
   \<and> (endpoint (wishes st) = NotJsonBody
    \<longrightarrow> runParseAndSearch endpoint st = (Some BodyNotJson, st\<lparr> loading := False \<rparr>))"
proof -
  have route: "POST client JSON_parse text
      = Inr (rawTextObject (case output of Some t \<Rightarrow> t | None \<Rightarrow> []))"
    if "client (prompt text) = LlmResponse output"
      and "JSON_parse (case output of Some t \<Rightarrow> t | None \<Rightarrow> []) = None"
    using that by (simp add: POST_def Let_def)
  have raw: "fst (runParseAndSearch endpoint st) = None
      \<and> results (snd (runParseAndSearch endpoint st))
          = searchNames (resolveParsed (filters st) emptyObject)
      \<and> filters (snd (runParseAndSearch endpoint st))
          = (resolveParsed (filters st) emptyObject)
              \<lparr> extra := (extra (filters st))(''rawText'' \<mapsto> JStr content) \<rparr>
      \<and> loading (snd (runParseAndSearch endpoint st)) = False"
    if "endpoint (wishes st) = JsonBody (rawTextObject content)"
    using that
    by (simp add: runParseAndSearch_def parseWishesLLM_def Let_def resolveParsed_rawTextObject
        searchNames_extra)
  have thrown: "runParseAndSearch endpoint st = (Some FetchRejected, st\<lparr> loading := False \<rparr>)"
    if "endpoint (wishes st) = NoResponse"
    using that by (simp add: runParseAndSearch_def parseWishesLLM_def Let_def)
  have body: "runParseAndSearch endpoint st = (Some BodyNotJson, st\<lparr> loading := False \<rparr>)"
    if "endpoint (wishes st) = NotJsonBody"
    using that by (simp add: runParseAndSearch_def parseWishesLLM_def Let_def)
  from route raw thrown body show ?thesis
    by blast
qed

theorem C6_parse_failure_witness:
  "POST proseModel rejectAll (wishes girlPending)
     = Inr (rawTextObject ''Sure! Here are some ideas.'')
   \<and> fst (runParseAndSearch proseEndpoint girlPending) = None
   \<and> results (snd (runParseAndSearch proseEndpoint girlPending))
       = searchNames (resolveParsed (filters girlPending) emptyObject)
   \<and> gender (filters (snd (runParseAndSearch proseEndpoint girlPending))) = Some girl
   \<and> runParseAndSearch unreachable girlPending = (Some FetchRejected, girlPending)"
proof -
  have model: "proseModel (prompt (wishes girlPending))
      = LlmResponse (Some ''Sure! Here are some ideas.'')"
    and parse: "rejectAll (case Some ''Sure! Here are some ideas.'' of Some t \<Rightarrow> t | None \<Rightarrow> [])
      = None"
    and reply: "proseEndpoint (wishes girlPending)
      = JsonBody (rawTextObject ''Sure! Here are some ideas.'')"
    and down: "unreachable (wishes girlPending) = NoResponse"
    by (simp_all add: proseModel_def rejectAll_def proseEndpoint_def unreachable_def)
  have idle: "girlPending\<lparr> loading := False \<rparr> = girlPending"
    by (simp add: girlPending_def initialState_def)
  have "\<not> truthyBool (vedicMode (filters girlPending))"
    by (simp add: girlPending_def initialState_def initialFilters_def emptyObject_def
        truthyBool_def)
  then have "resolveParsed (filters girlPending) emptyObject = filters girlPending"
    by (rule resolveParsed_not_vedic)
  then have girl: "gender (resolveParsed (filters girlPending) emptyObject) = Some girl"
    by (simp add: girlPending_def initialState_def initialFilters_def)
  from C6_parse_failure [of proseModel "wishes girlPending" "Some ''Sure! Here are some ideas.''"
      rejectAll proseEndpoint girlPending "''Sure! Here are some ideas.''"] model parse reply
  have "POST proseModel rejectAll (wishes girlPending)
          = Inr (rawTextObject ''Sure! Here are some ideas.'')"
    and "fst (runParseAndSearch proseEndpoint girlPending) = None"
    and "results (snd (runParseAndSearch proseEndpoint girlPending))
          = searchNames (resolveParsed (filters girlPending) emptyObject)"
    and "filters (snd (runParseAndSearch proseEndpoint girlPending))
          = (resolveParsed (filters girlPending) emptyObject)
              \<lparr> extra := (extra (filters girlPending))
                   (''rawText'' \<mapsto> JStr ''Sure! Here are some ideas.'') \<rparr>"
    by simp_all
  moreover from C6_parse_failure [of proseModel "wishes girlPending" None rejectAll unreachable
      girlPending "[]"] down
  have "runParseAndSearch unreachable girlPending = (Some FetchRejected, girlPending)"
    by (simp add: idle)
  ultimately show ?thesis
    using girl by simp
qed

end
